theory Spec2Isabelle
  imports Main
begin

section \<open>The block synchronisation hook \<open>useBlockSync\<close>\<close>

text \<open>
  Source: \<^verbatim>\<open>packages/block-editor/src/components/provider/use-block-sync.js\<close>.

  The hook connects a controlling entity (the props \<^verbatim>\<open>value\<close>, \<^verbatim>\<open>onChange\<close>,
  \<^verbatim>\<open>onInput\<close>, ...) with the \<^verbatim>\<open>core/block-editor\<close> store. It holds one mutable
  object, \<^verbatim>\<open>pendingChanges.current\<close>, shared by two effects: the effect that subscribes
  to the store and forwards changes outwards, and the effect that pushes a changed
  \<^verbatim>\<open>value\<close> into the store. Both are modelled by explicit state passing; the calls they
  make (store actions, parent callbacks) are returned as a log, in call order.
\<close>

subsection \<open>JavaScript values\<close>

text \<open>
  Block lists and selection positions are objects: the code compares them by identity
  only (\<^verbatim>\<open>!==\<close>, \<^verbatim>\<open>===\<close>, \<^verbatim>\<open>Array.prototype.includes\<close>) and tests them for
  truthiness. An object is therefore its address; \<^verbatim>\<open>undefined\<close> and \<^verbatim>\<open>null\<close> are
  the two absent values. Equality of \<open>jsval\<close> is strict equality of these values.
\<close>

type_synonym ref = nat

datatype jsval = Undefined | Null | Ref ref

fun truthy :: "jsval \<Rightarrow> bool" where
  "truthy Undefined = False"
| "truthy Null = False"
| "truthy (Ref r) = True"

text \<open>
  \<^verbatim>\<open>clientId\<close> is \<^verbatim>\<open>null\<close> (the default) or a string; the empty string is falsy.
\<close>

fun truthy_id :: "string option \<Rightarrow> bool" where
  "truthy_id None = False"
| "truthy_id (Some s) = (s \<noteq> [])"

text \<open>\<^verbatim>\<open>xs.includes( v )\<close>: same-value-zero search from the front.\<close>

fun includes_js :: "jsval list \<Rightarrow> jsval \<Rightarrow> bool" where
  "includes_js [] v = False"
| "includes_js (x # xs) v = (x = v \<or> includes_js xs v)"

text \<open>lodash \<^verbatim>\<open>last( xs )\<close>: the last element, \<^verbatim>\<open>undefined\<close> for an empty array.\<close>

definition last_lodash :: "jsval list \<Rightarrow> jsval" where
  "last_lodash xs = (if xs = [] then Undefined else last xs)"

subsection \<open>Props, store actions and the pending changes\<close>

text \<open>
  The destructured props. \<^verbatim>\<open>value\<close> is held under its local name
  \<open>controlledBlocks\<close>; \<^verbatim>\<open>onChange\<close> and \<^verbatim>\<open>onInput\<close> appear as the calls of the log.
\<close>

record props =
  clientId :: "string option"
  controlledBlocks :: jsval
  isDisabled :: bool
  controlledSelectionStart :: jsval
  controlledSelectionEnd :: jsval

text \<open>The actions of \<^verbatim>\<open>registry.dispatch( 'core/block-editor' )\<close> that the hook calls.\<close>

datatype action =
    SetHasControlledInnerBlocks "string option" bool
  | MarkNextChangeAsNotPersistent
  | ReplaceInnerBlocks "string option" jsval
  | ResetBlocks jsval
  | ResetSelection jsval jsval

fun is_block_reset :: "action \<Rightarrow> bool" where
  "is_block_reset (ReplaceInnerBlocks c v) = True"
| "is_block_reset (ResetBlocks v) = True"
| "is_block_reset a = False"

text \<open>
  The calls that write blocks or their control status to the store: all of the above
  except \<^verbatim>\<open>resetSelection\<close>.
\<close>

fun is_block_write :: "action \<Rightarrow> bool" where
  "is_block_write (ResetSelection s e) = False"
| "is_block_write a = True"

text \<open>\<^verbatim>\<open>useRef( { incoming: null, outgoing: [] } )\<close>.\<close>

record pending_changes =
  incoming :: jsval
  outgoing :: "jsval list"

definition initial_pending_changes :: pending_changes where
  "initial_pending_changes = \<lparr>incoming = Null, outgoing = []\<rparr>"

subsection \<open>Resetting the store from the controlled value\<close>

definition setControlledBlocks :: "props \<Rightarrow> action list" where
  "setControlledBlocks p =
     (if \<not> truthy (controlledBlocks p) then []
      else if truthy_id (clientId p) then
        [SetHasControlledInnerBlocks (clientId p) True,
         MarkNextChangeAsNotPersistent,
         ReplaceInnerBlocks (clientId p) (controlledBlocks p)]
      else [ResetBlocks (controlledBlocks p)])"

text \<open>
  The second effect (dependencies \<^verbatim>\<open>[ controlledBlocks, clientId ]\<close>). The writes to
  \<^verbatim>\<open>pendingChanges.current\<close> precede every dispatch; the result is the object as the
  effect wrote it, with the dispatched actions in order. Notifications that the store
  sends in answer to a dispatch are steps of the subscriber below.
\<close>

definition inbound_effect :: "props \<Rightarrow> pending_changes \<Rightarrow> pending_changes \<times> action list" where
  "inbound_effect p pc =
     (if includes_js (outgoing pc) (controlledBlocks p) then
        (if last_lodash (outgoing pc) = controlledBlocks p
         then (pc\<lparr>outgoing := []\<rparr>, [])
         else (pc, []))
      else
        (pc\<lparr>outgoing := [], incoming := controlledBlocks p\<rparr>,
         setControlledBlocks p @
         (if truthy (controlledSelectionStart p) \<and> truthy (controlledSelectionEnd p)
          then [ResetSelection (controlledSelectionStart p) (controlledSelectionEnd p)]
          else [])))"

subsection \<open>Watching the store\<close>

text \<open>
  What the selectors of \<^verbatim>\<open>registry.select( 'core/block-editor' )\<close> return at one
  moment. \<^verbatim>\<open>getBlocks\<close> returns a block list (an array) for every client id.
\<close>

record store =
  getBlocks :: "string option \<Rightarrow> ref"
  isLastBlockChangePersistent :: bool
  unstableIsLastBlockChangeIgnored :: bool
  getSelectionStart :: jsval
  getSelectionEnd :: jsval

text \<open>The three \<^verbatim>\<open>let\<close> variables of the first effect, captured by the subscriber.\<close>

record watch =
  blocks :: jsval
  isPersistent :: bool
  previousAreBlocksDifferent :: bool

text \<open>A call of a parent callback: the blocks, \<^verbatim>\<open>selectionStart\<close>, \<^verbatim>\<open>selectionEnd\<close>.\<close>

datatype call =
    OnChange jsval jsval jsval
  | OnInput jsval jsval jsval

text \<open>The callback given to \<^verbatim>\<open>registry.subscribe\<close>, run on one store notification.\<close>

definition subscriber ::
  "props \<Rightarrow> store \<Rightarrow> pending_changes \<times> watch \<Rightarrow> (pending_changes \<times> watch) \<times> call list" where
  "subscriber p st s =
     (let pc = fst s; w = snd s;
          newBlocks = Ref (getBlocks st (clientId p));
          newIsPersistent = isLastBlockChangePersistent st;
          areBlocksDifferent = (newBlocks \<noteq> blocks w)
      in if areBlocksDifferent \<and>
            (truthy (incoming pc) \<or> unstableIsLastBlockChangeIgnored st)
         then ((pc\<lparr>incoming := Null\<rparr>,
                w\<lparr>blocks := newBlocks, isPersistent := newIsPersistent\<rparr>), [])
         else
           (let didPersistenceChange =
                  (previousAreBlocksDifferent w \<and> \<not> areBlocksDifferent \<and>
                   newIsPersistent \<and> \<not> isPersistent w)
            in if areBlocksDifferent \<or> didPersistenceChange
               then ((pc\<lparr>outgoing := outgoing pc @ [newBlocks]\<rparr>,
                      w\<lparr>blocks := newBlocks, isPersistent := newIsPersistent,
                        previousAreBlocksDifferent := areBlocksDifferent\<rparr>),
                     [(if newIsPersistent then OnChange else OnInput)
                        newBlocks (getSelectionStart st) (getSelectionEnd st)])
               else ((pc, w\<lparr>previousAreBlocksDifferent := areBlocksDifferent\<rparr>), [])))"

text \<open>
  The first effect: no subscription when the component is disabled, otherwise a
  subscription whose variables start as \<^verbatim>\<open>blocks\<close> undefined, \<^verbatim>\<open>isPersistent\<close> read
  from the store and \<^verbatim>\<open>previousAreBlocksDifferent\<close> false.
\<close>

definition outbound_effect :: "props \<Rightarrow> store \<Rightarrow> watch option" where
  "outbound_effect p st =
     (if isDisabled p then None
      else Some \<lparr>blocks = Undefined,
                 isPersistent = isLastBlockChangePersistent st,
                 previousAreBlocksDifferent = False\<rparr>)"

text \<open>
  The hook instance: the ref object and the subscription, if one is installed. A store
  notification runs the subscriber when there is one and does nothing otherwise.
\<close>

record bridge =
  pendingChanges :: pending_changes
  subscription :: "watch option"

definition notify :: "props \<Rightarrow> store \<Rightarrow> bridge \<Rightarrow> bridge \<times> call list" where
  "notify p st b =
     (case subscription b of
        None \<Rightarrow> (b, [])
      | Some w \<Rightarrow>
          (let r = subscriber p st (pendingChanges b, w)
           in (\<lparr>pendingChanges = fst (fst r), subscription = Some (snd (fst r))\<rparr>, snd r)))"

fun notify_all :: "props \<Rightarrow> store list \<Rightarrow> bridge \<Rightarrow> bridge \<times> call list" where
  "notify_all p [] b = (b, [])"
| "notify_all p (st # sts) b =
     (let r = notify p st b; r' = notify_all p sts (fst r)
      in (fst r', snd r @ snd r'))"

text \<open>Mounting runs the two effects in the order in which the hook declares them.\<close>

definition mount :: "props \<Rightarrow> store \<Rightarrow> bridge \<times> action list" where
  "mount p st =
     (let sub = outbound_effect p st;
          r = inbound_effect p initial_pending_changes
      in (\<lparr>pendingChanges = fst r, subscription = sub\<rparr>, snd r))"

subsection \<open>Rendering again\<close>

text \<open>
  The objects, other than the props above, that the dependency array of the first
  effect names: the registry and the two parent callbacks, each by its identity.
\<close>

record identities =
  registry :: ref
  onChange :: ref
  onInput :: ref

text \<open>
  An effect runs again on a later render only when an entry of its dependency array
  has changed. The first effect lists \<^verbatim>\<open>[ registry, onChange, onInput, clientId ]\<close>
  (line 123), the second \<^verbatim>\<open>[ controlledBlocks, clientId ]\<close> (line 155);
  \<^verbatim>\<open>isDisabled\<close> is in neither list.
\<close>

definition same_outbound_deps :: "identities \<Rightarrow> props \<Rightarrow> identities \<Rightarrow> props \<Rightarrow> bool" where
  "same_outbound_deps i p i' p' =
     (registry i = registry i' \<and> onChange i = onChange i' \<and>
      onInput i = onInput i' \<and> clientId p = clientId p')"

definition same_inbound_deps :: "props \<Rightarrow> props \<Rightarrow> bool" where
  "same_inbound_deps p p' =
     (controlledBlocks p = controlledBlocks p' \<and> clientId p = clientId p')"

text \<open>
  A render with new props \<open>p'\<close> after one with props \<open>p\<close>. When its dependencies
  changed, the first effect is cleaned up (\<^verbatim>\<open>unsubscribe()\<close>) and run again, which
  replaces the subscription by what \<open>outbound_effect\<close> installs; otherwise the old
  subscription stays. Then the second effect runs if its dependencies changed.
\<close>

definition rerender ::
  "identities \<Rightarrow> props \<Rightarrow> identities \<Rightarrow> props \<Rightarrow> store \<Rightarrow> bridge \<Rightarrow> bridge \<times> action list" where
  "rerender i p i' p' st b =
     (let sub = (if same_outbound_deps i p i' p' then subscription b
                 else outbound_effect p' st);
          r = (if same_inbound_deps p p' then (pendingChanges b, [])
               else inbound_effect p' (pendingChanges b))
      in (\<lparr>pendingChanges = fst r, subscription = sub\<rparr>, snd r))"

section \<open>Properties\<close>

subsection \<open>Helper facts\<close>

lemma includes_js_set: "includes_js xs v = (v \<in> set xs)"
  by (induction xs) auto

lemma last_lodash_nonempty: "xs \<noteq> [] \<Longrightarrow> last_lodash xs = last xs"
  by (simp add: last_lodash_def)

lemma setControlledBlocks_present:
  "controlledBlocks p = Ref r \<Longrightarrow>
   setControlledBlocks p =
     (if truthy_id (clientId p)
      then [SetHasControlledInnerBlocks (clientId p) True,
            MarkNextChangeAsNotPersistent,
            ReplaceInnerBlocks (clientId p) (Ref r)]
      else [ResetBlocks (Ref r)])"
  by (simp add: setControlledBlocks_def)

lemma setControlledBlocks_absent:
  "\<not> truthy (controlledBlocks p) \<Longrightarrow> setControlledBlocks p = []"
  by (simp add: setControlledBlocks_def)

lemma inbound_effect_fresh:
  "controlledBlocks p \<notin> set (outgoing pc) \<Longrightarrow>
   inbound_effect p pc =
     (pc\<lparr>outgoing := [], incoming := controlledBlocks p\<rparr>,
      setControlledBlocks p @
      (if truthy (controlledSelectionStart p) \<and> truthy (controlledSelectionEnd p)
       then [ResetSelection (controlledSelectionStart p) (controlledSelectionEnd p)]
       else []))"
  by (simp add: inbound_effect_def includes_js_set)

lemma subscriber_forwarded:
  assumes "Ref (getBlocks st (clientId p)) \<noteq> blocks w"
    and "snd (subscriber p st (pc, w)) \<noteq> []"
  shows "subscriber p st (pc, w) =
           ((pc\<lparr>outgoing := outgoing pc @ [Ref (getBlocks st (clientId p))]\<rparr>,
             w\<lparr>blocks := Ref (getBlocks st (clientId p)),
               isPersistent := isLastBlockChangePersistent st,
               previousAreBlocksDifferent := True\<rparr>),
            [(if isLastBlockChangePersistent st then OnChange else OnInput)
               (Ref (getBlocks st (clientId p))) (getSelectionStart st) (getSelectionEnd st)])"
  using assms by (simp add: subscriber_def Let_def split: if_splits)

lemma notify_all_unsubscribed:
  "subscription b = None \<Longrightarrow> notify_all p sts b = (b, [])"
  by (induction sts) (simp_all add: notify_def)

text \<open>
  The scenario of a top-level editor: mounted on an empty list (object 0), the store
  first reports that list, then a persistent edit producing a new list (object 1). The
  reset of the mount is consumed by the first notification, the edit is forwarded by
  one \<open>onChange\<close>, and the new list is queued in \<open>outgoing\<close>.
\<close>

lemma scenario_mount_then_edit:
  "notify_all \<lparr>clientId = None, controlledBlocks = Ref 0, isDisabled = False,
        controlledSelectionStart = Undefined, controlledSelectionEnd = Undefined\<rparr>
     [\<lparr>getBlocks = (\<lambda>c. 0), isLastBlockChangePersistent = True,
        unstableIsLastBlockChangeIgnored = False,
        getSelectionStart = Ref 8, getSelectionEnd = Ref 9\<rparr>,
      \<lparr>getBlocks = (\<lambda>c. 1), isLastBlockChangePersistent = True,
        unstableIsLastBlockChangeIgnored = False,
        getSelectionStart = Ref 8, getSelectionEnd = Ref 9\<rparr>]
     (fst (mount \<lparr>clientId = None, controlledBlocks = Ref 0, isDisabled = False,
        controlledSelectionStart = Undefined, controlledSelectionEnd = Undefined\<rparr>
       \<lparr>getBlocks = (\<lambda>c. 5), isLastBlockChangePersistent = True,
        unstableIsLastBlockChangeIgnored = False,
        getSelectionStart = Ref 8, getSelectionEnd = Ref 9\<rparr>))
   = (\<lparr>pendingChanges = \<lparr>incoming = Null, outgoing = [Ref 1]\<rparr>,
       subscription = Some \<lparr>blocks = Ref 1, isPersistent = True,
                             previousAreBlocksDifferent = True\<rparr>\<rparr>,
      [OnChange (Ref 1) (Ref 8) (Ref 9)])"
  by (simp add: mount_def outbound_effect_def inbound_effect_def setControlledBlocks_def
      initial_pending_changes_def notify_def subscriber_def Let_def)

subsection \<open>Inbound reconciliation\<close>

text \<open>
  Claim C1. Whenever \<open>pendingChanges.outgoing\<close> is non-empty and the controlled value
  is identical to its last entry, the inbound effect empties \<open>outgoing\<close>, dispatches no
  action at all (so neither \<open>resetBlocks\<close> nor \<open>replaceInnerBlocks\<close>) and leaves
  \<open>incoming\<close> as it was.
\<close>

theorem C1_echo_of_last_clears_outgoing:
  assumes "outgoing pc \<noteq> []"
    and "last (outgoing pc) = controlledBlocks p"
  shows "outgoing (fst (inbound_effect p pc)) = []
       \<and> snd (inbound_effect p pc) = []
       \<and> incoming (fst (inbound_effect p pc)) = incoming pc"
proof -
  from assms have "controlledBlocks p \<in> set (outgoing pc)"
    using last_in_set by metis
  then have inc: "includes_js (outgoing pc) (controlledBlocks p)"
    by (simp add: includes_js_set)
  from assms have "last_lodash (outgoing pc) = controlledBlocks p"
    by (simp add: last_lodash_nonempty)
  with inc show ?thesis
    by (simp add: inbound_effect_def)
qed

theorem C1_witness:
  "outgoing \<lparr>incoming = Ref 7, outgoing = [Ref 1, Ref 2]\<rparr> \<noteq> []
   \<and> last (outgoing \<lparr>incoming = Ref 7, outgoing = [Ref 1, Ref 2]\<rparr>)
       = controlledBlocks \<lparr>clientId = None, controlledBlocks = Ref 2, isDisabled = False,
           controlledSelectionStart = Ref 3, controlledSelectionEnd = Ref 4\<rparr>
   \<and> inbound_effect
       \<lparr>clientId = None, controlledBlocks = Ref 2, isDisabled = False,
        controlledSelectionStart = Ref 3, controlledSelectionEnd = Ref 4\<rparr>
       \<lparr>incoming = Ref 7, outgoing = [Ref 1, Ref 2]\<rparr>
     = (\<lparr>incoming = Ref 7, outgoing = []\<rparr>, [])"
  using C1_echo_of_last_clears_outgoing
    [of "\<lparr>incoming = Ref 7, outgoing = [Ref 1, Ref 2]\<rparr>"
        "\<lparr>clientId = None, controlledBlocks = Ref 2, isDisabled = False,
          controlledSelectionStart = Ref 3, controlledSelectionEnd = Ref 4\<rparr>"]
  by (simp add: inbound_effect_def last_lodash_def)

text \<open>
  Claim C2. For every controlled value that is a block list (an object \<open>Ref r\<close>) and is
  identical to no entry of \<open>pendingChanges.outgoing\<close>, the inbound effect empties
  \<open>outgoing\<close>, sets \<open>incoming\<close> to that value and resets the store exactly once with
  it: the block calls are \<open>resetBlocks( value )\<close> alone when \<open>clientId\<close> is \<open>null\<close>
  (or otherwise falsy), and \<open>setHasControlledInnerBlocks( clientId, true )\<close>,
  \<open>__unstableMarkNextChangeAsNotPersistent()\<close>, \<open>replaceInnerBlocks( clientId, value )\<close>,
  in this order, when \<open>clientId\<close> is set. An absent value is the subject of claim C8.
\<close>

theorem C2_genuine_external_reset:
  assumes "controlledBlocks p = Ref r"
    and "Ref r \<notin> set (outgoing pc)"
  shows "outgoing (fst (inbound_effect p pc)) = []
       \<and> incoming (fst (inbound_effect p pc)) = Ref r
       \<and> filter is_block_write (snd (inbound_effect p pc)) =
           (if truthy_id (clientId p)
            then [SetHasControlledInnerBlocks (clientId p) True,
                  MarkNextChangeAsNotPersistent,
                  ReplaceInnerBlocks (clientId p) (Ref r)]
            else [ResetBlocks (Ref r)])
       \<and> filter is_block_reset (snd (inbound_effect p pc)) =
           [if truthy_id (clientId p) then ReplaceInnerBlocks (clientId p) (Ref r)
            else ResetBlocks (Ref r)]
       \<and> (clientId p = None \<longrightarrow>
            filter is_block_write (snd (inbound_effect p pc)) = [ResetBlocks (Ref r)])"
proof -
  from assms have fresh: "controlledBlocks p \<notin> set (outgoing pc)"
    by simp
  show ?thesis
    unfolding inbound_effect_fresh [OF fresh] setControlledBlocks_present [OF assms(1)]
    using assms(1) by auto
qed

theorem C2_witness:
  "controlledBlocks \<lparr>clientId = Some ''abc'', controlledBlocks = Ref 5, isDisabled = False,
        controlledSelectionStart = Ref 3, controlledSelectionEnd = Ref 4\<rparr> = Ref 5
   \<and> Ref 5 \<notin> set (outgoing \<lparr>incoming = Null, outgoing = [Ref 1, Ref 2]\<rparr>)
   \<and> outgoing (fst (inbound_effect
        \<lparr>clientId = Some ''abc'', controlledBlocks = Ref 5, isDisabled = False,
         controlledSelectionStart = Ref 3, controlledSelectionEnd = Ref 4\<rparr>
        \<lparr>incoming = Null, outgoing = [Ref 1, Ref 2]\<rparr>)) = []
   \<and> incoming (fst (inbound_effect
        \<lparr>clientId = Some ''abc'', controlledBlocks = Ref 5, isDisabled = False,
         controlledSelectionStart = Ref 3, controlledSelectionEnd = Ref 4\<rparr>
        \<lparr>incoming = Null, outgoing = [Ref 1, Ref 2]\<rparr>)) = Ref 5
   \<and> filter is_block_write (snd (inbound_effect
        \<lparr>clientId = Some ''abc'', controlledBlocks = Ref 5, isDisabled = False,
         controlledSelectionStart = Ref 3, controlledSelectionEnd = Ref 4\<rparr>
        \<lparr>incoming = Null, outgoing = [Ref 1, Ref 2]\<rparr>))
     = [SetHasControlledInnerBlocks (Some ''abc'') True,
        MarkNextChangeAsNotPersistent,
        ReplaceInnerBlocks (Some ''abc'') (Ref 5)]"
  using C2_genuine_external_reset
    [of "\<lparr>clientId = Some ''abc'', controlledBlocks = Ref 5, isDisabled = False,
          controlledSelectionStart = Ref 3, controlledSelectionEnd = Ref 4\<rparr>"
        5 "\<lparr>incoming = Null, outgoing = [Ref 1, Ref 2]\<rparr>"]
  by simp

text \<open>
  Claim C4. Whenever \<open>pendingChanges.outgoing\<close> holds at least two entries and the
  controlled value is identical to one of them but not to the last, the inbound effect
  leaves \<open>outgoing\<close> as it was (so non-empty), does not touch \<open>incoming\<close> and dispatches
  no action.
\<close>

theorem C4_stale_echo_leaves_outgoing:
  assumes "2 \<le> length (outgoing pc)"
    and "controlledBlocks p \<in> set (outgoing pc)"
    and "last (outgoing pc) \<noteq> controlledBlocks p"
  shows "outgoing (fst (inbound_effect p pc)) = outgoing pc
       \<and> outgoing (fst (inbound_effect p pc)) \<noteq> []
       \<and> incoming (fst (inbound_effect p pc)) = incoming pc
       \<and> snd (inbound_effect p pc) = []"
proof -
  from assms(1) have ne: "outgoing pc \<noteq> []"
    by auto
  with assms(3) have "last_lodash (outgoing pc) \<noteq> controlledBlocks p"
    by (simp add: last_lodash_nonempty)
  with assms(2) ne show ?thesis
    by (simp add: inbound_effect_def includes_js_set)
qed

theorem C4_witness:
  "2 \<le> length (outgoing \<lparr>incoming = Null, outgoing = [Ref 1, Ref 2]\<rparr>)
   \<and> controlledBlocks \<lparr>clientId = None, controlledBlocks = Ref 1, isDisabled = False,
        controlledSelectionStart = Ref 3, controlledSelectionEnd = Ref 4\<rparr>
       \<in> set (outgoing \<lparr>incoming = Null, outgoing = [Ref 1, Ref 2]\<rparr>)
   \<and> last (outgoing \<lparr>incoming = Null, outgoing = [Ref 1, Ref 2]\<rparr>)
       \<noteq> controlledBlocks \<lparr>clientId = None, controlledBlocks = Ref 1, isDisabled = False,
            controlledSelectionStart = Ref 3, controlledSelectionEnd = Ref 4\<rparr>
   \<and> inbound_effect
       \<lparr>clientId = None, controlledBlocks = Ref 1, isDisabled = False,
        controlledSelectionStart = Ref 3, controlledSelectionEnd = Ref 4\<rparr>
       \<lparr>incoming = Null, outgoing = [Ref 1, Ref 2]\<rparr>
     = (\<lparr>incoming = Null, outgoing = [Ref 1, Ref 2]\<rparr>, [])"
  using C4_stale_echo_leaves_outgoing
    [of "\<lparr>incoming = Null, outgoing = [Ref 1, Ref 2]\<rparr>"
        "\<lparr>clientId = None, controlledBlocks = Ref 1, isDisabled = False,
          controlledSelectionStart = Ref 3, controlledSelectionEnd = Ref 4\<rparr>"]
  by (simp add: inbound_effect_def last_lodash_def)

text \<open>
  Claim C5, as stated: \<open>pendingChanges.outgoing\<close> is emptied whenever the observed
  value is identical to any queued entry, or is a new external value. It fails for an
  older entry: with \<open>outgoing = [A, B]\<close> and the value \<open>A\<close>, the value is in the queue
  and the queue stays \<open>[A, B]\<close>.
\<close>

theorem C5_counterexample:
  "Ref 1 \<in> set (outgoing \<lparr>incoming = Null, outgoing = [Ref 1, Ref 2]\<rparr>)
   \<and> outgoing (fst (inbound_effect
        \<lparr>clientId = None, controlledBlocks = Ref 1, isDisabled = False,
         controlledSelectionStart = Undefined, controlledSelectionEnd = Undefined\<rparr>
        \<lparr>incoming = Null, outgoing = [Ref 1, Ref 2]\<rparr>)) \<noteq> []"
  by (simp add: inbound_effect_def last_lodash_def)

text \<open>
  Claim C5, amended. After an inbound step \<open>pendingChanges.outgoing\<close> is empty exactly
  when the observed value is (a) identical to the last queued entry, or (b) identical
  to no queued entry (a new external value); a value identical only to an older entry
  leaves the queue as it was.
\<close>

theorem C5_outgoing_cleared_iff:
  "((outgoing (fst (inbound_effect p pc)) = []) =
      (controlledBlocks p \<notin> set (outgoing pc)
       \<or> (outgoing pc \<noteq> [] \<and> last (outgoing pc) = controlledBlocks p)))
   \<and> (controlledBlocks p \<in> set (outgoing pc) \<and> last (outgoing pc) \<noteq> controlledBlocks p
        \<longrightarrow> outgoing (fst (inbound_effect p pc)) = outgoing pc)"
proof (cases "controlledBlocks p \<in> set (outgoing pc)")
  case False
  then show ?thesis
    by (simp add: inbound_effect_fresh)
next
  case True
  then have ne: "outgoing pc \<noteq> []"
    by auto
  with True show ?thesis
    by (simp add: inbound_effect_def includes_js_set last_lodash_nonempty)
qed

theorem C5_witness:
  "outgoing \<lparr>incoming = Null, outgoing = [Ref 1, Ref 2]\<rparr> \<noteq> []
   \<and> last (outgoing \<lparr>incoming = Null, outgoing = [Ref 1, Ref 2]\<rparr>)
       = controlledBlocks \<lparr>clientId = None, controlledBlocks = Ref 2, isDisabled = False,
           controlledSelectionStart = Undefined, controlledSelectionEnd = Undefined\<rparr>
   \<and> outgoing (fst (inbound_effect
        \<lparr>clientId = None, controlledBlocks = Ref 2, isDisabled = False,
         controlledSelectionStart = Undefined, controlledSelectionEnd = Undefined\<rparr>
        \<lparr>incoming = Null, outgoing = [Ref 1, Ref 2]\<rparr>)) = []"
  using C5_outgoing_cleared_iff
    [of "\<lparr>clientId = None, controlledBlocks = Ref 2, isDisabled = False,
          controlledSelectionStart = Undefined, controlledSelectionEnd = Undefined\<rparr>"
        "\<lparr>incoming = Null, outgoing = [Ref 1, Ref 2]\<rparr>"]
  by simp

text \<open>
  Claim C8. When the controlled value is absent (\<open>undefined\<close> or \<open>null\<close>),
  \<open>setControlledBlocks\<close> dispatches nothing, and the whole inbound effect makes no
  \<open>resetBlocks\<close>, \<open>replaceInnerBlocks\<close>, \<open>setHasControlledInnerBlocks\<close> or
  \<open>__unstableMarkNextChangeAsNotPersistent\<close> call, for every state of the pending
  changes. The effect has no operation that can throw: every path of
  \<open>inbound_effect\<close> returns its state and its log.
\<close>

theorem C8_absent_value_no_reset:
  assumes "controlledBlocks p = Undefined \<or> controlledBlocks p = Null"
  shows "setControlledBlocks p = []
       \<and> filter is_block_write (snd (inbound_effect p pc)) = []"
proof -
  from assms have absent: "\<not> truthy (controlledBlocks p)"
    by auto
  then have "setControlledBlocks p = []"
    by (rule setControlledBlocks_absent)
  then show ?thesis
    by (simp add: inbound_effect_def)
qed

theorem C8_witness:
  "(controlledBlocks \<lparr>clientId = Some ''abc'', controlledBlocks = Undefined,
        isDisabled = False,
        controlledSelectionStart = Ref 3, controlledSelectionEnd = Ref 4\<rparr> = Undefined
    \<or> controlledBlocks \<lparr>clientId = Some ''abc'', controlledBlocks = Undefined,
        isDisabled = False,
        controlledSelectionStart = Ref 3, controlledSelectionEnd = Ref 4\<rparr> = Null)
   \<and> setControlledBlocks \<lparr>clientId = Some ''abc'', controlledBlocks = Undefined,
        isDisabled = False,
        controlledSelectionStart = Ref 3, controlledSelectionEnd = Ref 4\<rparr> = []
   \<and> filter is_block_write (snd (inbound_effect
        \<lparr>clientId = Some ''abc'', controlledBlocks = Undefined, isDisabled = False,
         controlledSelectionStart = Ref 3, controlledSelectionEnd = Ref 4\<rparr>
        \<lparr>incoming = Null, outgoing = [Ref 1]\<rparr>)) = []"
  using C8_absent_value_no_reset
    [of "\<lparr>clientId = Some ''abc'', controlledBlocks = Undefined, isDisabled = False,
          controlledSelectionStart = Ref 3, controlledSelectionEnd = Ref 4\<rparr>"
        "\<lparr>incoming = Null, outgoing = [Ref 1]\<rparr>"]
  by simp

text \<open>
  Claim C9. The inbound effect does not read \<open>isDisabled\<close>: its result is the same
  whatever the flag. In particular, with \<open>isDisabled\<close> true (so that the outbound
  effect installs no subscription), a controlled block list identical to no entry of
  \<open>outgoing\<close> still empties \<open>outgoing\<close>, sets \<open>incoming\<close>, resets the store once with
  the value and, when both selection endpoints are present, ends with
  \<open>resetSelection( start, end )\<close>.
\<close>

theorem C9_inbound_ignores_disabled:
  assumes "isDisabled p"
    and "controlledBlocks p = Ref r"
    and "Ref r \<notin> set (outgoing pc)"
  shows "outbound_effect p st = None
       \<and> outgoing (fst (inbound_effect p pc)) = []
       \<and> incoming (fst (inbound_effect p pc)) = Ref r
       \<and> filter is_block_reset (snd (inbound_effect p pc)) =
           [if truthy_id (clientId p) then ReplaceInnerBlocks (clientId p) (Ref r)
            else ResetBlocks (Ref r)]
       \<and> (truthy (controlledSelectionStart p) \<and> truthy (controlledSelectionEnd p) \<longrightarrow>
            last (snd (inbound_effect p pc)) =
              ResetSelection (controlledSelectionStart p) (controlledSelectionEnd p))
       \<and> inbound_effect p pc = inbound_effect (p\<lparr>isDisabled := False\<rparr>) pc"
proof -
  from assms have fresh: "controlledBlocks p \<notin> set (outgoing pc)"
    by simp
  have indep: "inbound_effect p pc = inbound_effect (p\<lparr>isDisabled := False\<rparr>) pc"
    by (simp add: inbound_effect_def setControlledBlocks_def)
  have out: "outbound_effect p st = None"
    using assms(1) by (simp add: outbound_effect_def)
  have rest: "outgoing (fst (inbound_effect p pc)) = []
       \<and> incoming (fst (inbound_effect p pc)) = Ref r
       \<and> filter is_block_reset (snd (inbound_effect p pc)) =
           [if truthy_id (clientId p) then ReplaceInnerBlocks (clientId p) (Ref r)
            else ResetBlocks (Ref r)]
       \<and> (truthy (controlledSelectionStart p) \<and> truthy (controlledSelectionEnd p) \<longrightarrow>
            last (snd (inbound_effect p pc)) =
              ResetSelection (controlledSelectionStart p) (controlledSelectionEnd p))"
    unfolding inbound_effect_fresh [OF fresh] setControlledBlocks_present [OF assms(2)]
    using assms(2) by auto
  from out rest indep show ?thesis
    by blast
qed

theorem C9_witness:
  "isDisabled \<lparr>clientId = None, controlledBlocks = Ref 5, isDisabled = True,
        controlledSelectionStart = Ref 3, controlledSelectionEnd = Ref 4\<rparr>
   \<and> Ref 5 \<notin> set (outgoing \<lparr>incoming = Null, outgoing = [Ref 1, Ref 2]\<rparr>)
   \<and> truthy (Ref 3) \<and> truthy (Ref 4)
   \<and> outbound_effect \<lparr>clientId = None, controlledBlocks = Ref 5, isDisabled = True,
        controlledSelectionStart = Ref 3, controlledSelectionEnd = Ref 4\<rparr>
       \<lparr>getBlocks = (\<lambda>c. 0), isLastBlockChangePersistent = True,
        unstableIsLastBlockChangeIgnored = False,
        getSelectionStart = Ref 8, getSelectionEnd = Ref 9\<rparr> = None
   \<and> inbound_effect
       \<lparr>clientId = None, controlledBlocks = Ref 5, isDisabled = True,
        controlledSelectionStart = Ref 3, controlledSelectionEnd = Ref 4\<rparr>
       \<lparr>incoming = Null, outgoing = [Ref 1, Ref 2]\<rparr>
     = (\<lparr>incoming = Ref 5, outgoing = []\<rparr>,
        [ResetBlocks (Ref 5), ResetSelection (Ref 3) (Ref 4)])"
  using C9_inbound_ignores_disabled
    [of "\<lparr>clientId = None, controlledBlocks = Ref 5, isDisabled = True,
          controlledSelectionStart = Ref 3, controlledSelectionEnd = Ref 4\<rparr>"
        5 "\<lparr>incoming = Null, outgoing = [Ref 1, Ref 2]\<rparr>"
        "\<lparr>getBlocks = (\<lambda>c. 0), isLastBlockChangePersistent = True,
          unstableIsLastBlockChangeIgnored = False,
          getSelectionStart = Ref 8, getSelectionEnd = Ref 9\<rparr>"]
  by (simp add: inbound_effect_def setControlledBlocks_def)

subsection \<open>Forwarding store changes\<close>

text \<open>
  Claim C3. On every store notification whose block list is not identical to the
  tracked one while \<open>pendingChanges.incoming\<close> holds a value (is truthy) or the store
  reports the last change as ignored, the subscriber sets \<open>incoming\<close> to \<open>null\<close>,
  stores the new block list and the new persistence flag in its variables, and calls
  neither \<open>onChange\<close> nor \<open>onInput\<close>; nothing else changes.
\<close>

theorem C3_suppressed_notification:
  assumes "Ref (getBlocks st (clientId p)) \<noteq> blocks w"
    and "truthy (incoming pc) \<or> unstableIsLastBlockChangeIgnored st"
  shows "subscriber p st (pc, w) =
           ((pc\<lparr>incoming := Null\<rparr>,
             w\<lparr>blocks := Ref (getBlocks st (clientId p)),
               isPersistent := isLastBlockChangePersistent st\<rparr>), [])"
  using assms by (simp add: subscriber_def Let_def)

theorem C3_witness:
  "Ref (getBlocks \<lparr>getBlocks = (\<lambda>c. 1), isLastBlockChangePersistent = True,
          unstableIsLastBlockChangeIgnored = False,
          getSelectionStart = Ref 8, getSelectionEnd = Ref 9\<rparr> None)
     \<noteq> blocks \<lparr>blocks = Ref 0, isPersistent = False, previousAreBlocksDifferent = False\<rparr>
   \<and> truthy (incoming \<lparr>incoming = Ref 1, outgoing = [Ref 0]\<rparr>)
   \<and> subscriber
       \<lparr>clientId = None, controlledBlocks = Ref 1, isDisabled = False,
        controlledSelectionStart = Undefined, controlledSelectionEnd = Undefined\<rparr>
       \<lparr>getBlocks = (\<lambda>c. 1), isLastBlockChangePersistent = True,
        unstableIsLastBlockChangeIgnored = False,
        getSelectionStart = Ref 8, getSelectionEnd = Ref 9\<rparr>
       (\<lparr>incoming = Ref 1, outgoing = [Ref 0]\<rparr>,
        \<lparr>blocks = Ref 0, isPersistent = False, previousAreBlocksDifferent = False\<rparr>)
     = ((\<lparr>incoming = Null, outgoing = [Ref 0]\<rparr>,
         \<lparr>blocks = Ref 1, isPersistent = True, previousAreBlocksDifferent = False\<rparr>), [])"
  using C3_suppressed_notification
    [of "\<lparr>getBlocks = (\<lambda>c. 1), isLastBlockChangePersistent = True,
          unstableIsLastBlockChangeIgnored = False,
          getSelectionStart = Ref 8, getSelectionEnd = Ref 9\<rparr>"
        "\<lparr>clientId = None, controlledBlocks = Ref 1, isDisabled = False,
          controlledSelectionStart = Undefined, controlledSelectionEnd = Undefined\<rparr>"
        "\<lparr>blocks = Ref 0, isPersistent = False, previousAreBlocksDifferent = False\<rparr>"
        "\<lparr>incoming = Ref 1, outgoing = [Ref 0]\<rparr>"]
  by simp

text \<open>
  Claim C6. Take two successive notifications. On the first the block list is not
  identical to the tracked one, the change is forwarded (a callback is called) and the
  store reports it as not persistent; on the second the block list is the same object
  and the store reports the change as persistent. Then the first notification called
  \<open>onInput\<close>, and the second calls \<open>onChange\<close> exactly once, with the current block
  list and the store's selection bounds, and does not call \<open>onInput\<close>.
\<close>

theorem C6_persistence_commit:
  assumes "Ref (getBlocks s1 (clientId p)) \<noteq> blocks w"
    and "snd (subscriber p s1 (pc, w)) \<noteq> []"
    and "\<not> isLastBlockChangePersistent s1"
    and "getBlocks s2 (clientId p) = getBlocks s1 (clientId p)"
    and "isLastBlockChangePersistent s2"
  shows "snd (subscriber p s1 (pc, w)) =
           [OnInput (Ref (getBlocks s1 (clientId p))) (getSelectionStart s1) (getSelectionEnd s1)]
       \<and> snd (subscriber p s2 (fst (subscriber p s1 (pc, w)))) =
           [OnChange (Ref (getBlocks s2 (clientId p))) (getSelectionStart s2) (getSelectionEnd s2)]"
proof -
  note first = subscriber_forwarded [OF assms(1) assms(2)]
  show ?thesis
    unfolding first using assms(3-5) by (simp add: subscriber_def Let_def)
qed

theorem C6_witness:
  "Ref (getBlocks \<lparr>getBlocks = (\<lambda>c. 1), isLastBlockChangePersistent = False,
          unstableIsLastBlockChangeIgnored = False,
          getSelectionStart = Ref 8, getSelectionEnd = Ref 9\<rparr> None)
     \<noteq> blocks \<lparr>blocks = Ref 0, isPersistent = True, previousAreBlocksDifferent = False\<rparr>
   \<and> snd (subscriber
       \<lparr>clientId = None, controlledBlocks = Ref 0, isDisabled = False,
        controlledSelectionStart = Undefined, controlledSelectionEnd = Undefined\<rparr>
       \<lparr>getBlocks = (\<lambda>c. 1), isLastBlockChangePersistent = False,
        unstableIsLastBlockChangeIgnored = False,
        getSelectionStart = Ref 8, getSelectionEnd = Ref 9\<rparr>
       (\<lparr>incoming = Null, outgoing = []\<rparr>,
        \<lparr>blocks = Ref 0, isPersistent = True, previousAreBlocksDifferent = False\<rparr>))
     = [OnInput (Ref 1) (Ref 8) (Ref 9)]
   \<and> snd (subscriber
       \<lparr>clientId = None, controlledBlocks = Ref 0, isDisabled = False,
        controlledSelectionStart = Undefined, controlledSelectionEnd = Undefined\<rparr>
       \<lparr>getBlocks = (\<lambda>c. 1), isLastBlockChangePersistent = True,
        unstableIsLastBlockChangeIgnored = False,
        getSelectionStart = Ref 6, getSelectionEnd = Ref 7\<rparr>
       (fst (subscriber
         \<lparr>clientId = None, controlledBlocks = Ref 0, isDisabled = False,
          controlledSelectionStart = Undefined, controlledSelectionEnd = Undefined\<rparr>
         \<lparr>getBlocks = (\<lambda>c. 1), isLastBlockChangePersistent = False,
          unstableIsLastBlockChangeIgnored = False,
          getSelectionStart = Ref 8, getSelectionEnd = Ref 9\<rparr>
         (\<lparr>incoming = Null, outgoing = []\<rparr>,
          \<lparr>blocks = Ref 0, isPersistent = True, previousAreBlocksDifferent = False\<rparr>))))
     = [OnChange (Ref 1) (Ref 6) (Ref 7)]"
proof -
  have fwd: "snd (subscriber
       \<lparr>clientId = None, controlledBlocks = Ref 0, isDisabled = False,
        controlledSelectionStart = Undefined, controlledSelectionEnd = Undefined\<rparr>
       \<lparr>getBlocks = (\<lambda>c. 1), isLastBlockChangePersistent = False,
        unstableIsLastBlockChangeIgnored = False,
        getSelectionStart = Ref 8, getSelectionEnd = Ref 9\<rparr>
       (\<lparr>incoming = Null, outgoing = []\<rparr>,
        \<lparr>blocks = Ref 0, isPersistent = True, previousAreBlocksDifferent = False\<rparr>))
     \<noteq> []"
    by (simp add: subscriber_def Let_def)
  show ?thesis
    using fwd C6_persistence_commit
      [of "\<lparr>getBlocks = (\<lambda>c. 1), isLastBlockChangePersistent = False,
            unstableIsLastBlockChangeIgnored = False,
            getSelectionStart = Ref 8, getSelectionEnd = Ref 9\<rparr>"
          "\<lparr>clientId = None, controlledBlocks = Ref 0, isDisabled = False,
            controlledSelectionStart = Undefined, controlledSelectionEnd = Undefined\<rparr>"
          "\<lparr>blocks = Ref 0, isPersistent = True, previousAreBlocksDifferent = False\<rparr>"
          "\<lparr>incoming = Null, outgoing = []\<rparr>"
          "\<lparr>getBlocks = (\<lambda>c. 1), isLastBlockChangePersistent = True,
            unstableIsLastBlockChangeIgnored = False,
            getSelectionStart = Ref 6, getSelectionEnd = Ref 7\<rparr>"]
    by simp
qed

text \<open>
  An activation of the outbound effect with \<open>isDisabled\<close> true installs no
  subscription, and a hook mounted that way makes no \<open>onChange\<close> and no \<open>onInput\<close>
  call on any sequence of store notifications.
\<close>

lemma disabled_activation_never_forwards:
  assumes "isDisabled p"
  shows "outbound_effect p st = None
       \<and> subscription (fst (mount p st)) = None
       \<and> snd (notify_all p sts \<lparr>pendingChanges = pc, subscription = outbound_effect p st\<rparr>) = []
       \<and> snd (notify_all p sts (fst (mount p st))) = []"
proof -
  from assms have none: "outbound_effect p st = None"
    by (simp add: outbound_effect_def)
  then have sub: "subscription (fst (mount p st)) = None"
    by (simp add: mount_def Let_def)
  from none sub show ?thesis
    by (simp add: notify_all_unsubscribed)
qed

text \<open>
  Claim C7. When \<open>isDisabled\<close> is true, no store subscription is installed and no
  sequence of store changes leads to an \<open>onChange\<close> or \<open>onInput\<close> call; the comment
  in the first effect says the same (\<^verbatim>\<open>We never want to update the controller with block-editor changes if the component is marked as disabled\<close>). The code does not
  keep this when the flag turns true on a later render. Mount the hook enabled on the
  list 0; render again with the same registry, callbacks, \<open>clientId\<close> and value but
  \<open>isDisabled\<close> true: no dependency of the first effect changed, so the subscription
  of the mount stays. The store then reports the list 0 (consumed as the echo of the
  mount's reset) and a persistent edit giving the list 1: the subscriber, which never
  reads the flag, calls \<open>onChange\<close> with the list 1.
\<close>

theorem C7_disabled_after_mount_still_forwards:
  "isDisabled \<lparr>clientId = None, controlledBlocks = Ref 0, isDisabled = True,
        controlledSelectionStart = Undefined, controlledSelectionEnd = Undefined\<rparr>
   \<and> subscription (fst (rerender
        \<lparr>registry = 20, onChange = 21, onInput = 22\<rparr>
        \<lparr>clientId = None, controlledBlocks = Ref 0, isDisabled = False,
         controlledSelectionStart = Undefined, controlledSelectionEnd = Undefined\<rparr>
        \<lparr>registry = 20, onChange = 21, onInput = 22\<rparr>
        \<lparr>clientId = None, controlledBlocks = Ref 0, isDisabled = True,
         controlledSelectionStart = Undefined, controlledSelectionEnd = Undefined\<rparr>
        \<lparr>getBlocks = (\<lambda>c. 5), isLastBlockChangePersistent = True,
         unstableIsLastBlockChangeIgnored = False,
         getSelectionStart = Ref 8, getSelectionEnd = Ref 9\<rparr>
        (fst (mount
          \<lparr>clientId = None, controlledBlocks = Ref 0, isDisabled = False,
           controlledSelectionStart = Undefined, controlledSelectionEnd = Undefined\<rparr>
          \<lparr>getBlocks = (\<lambda>c. 5), isLastBlockChangePersistent = True,
           unstableIsLastBlockChangeIgnored = False,
           getSelectionStart = Ref 8, getSelectionEnd = Ref 9\<rparr>))))
     = Some \<lparr>blocks = Undefined, isPersistent = True, previousAreBlocksDifferent = False\<rparr>
   \<and> snd (notify_all
        \<lparr>clientId = None, controlledBlocks = Ref 0, isDisabled = True,
         controlledSelectionStart = Undefined, controlledSelectionEnd = Undefined\<rparr>
        [\<lparr>getBlocks = (\<lambda>c. 0), isLastBlockChangePersistent = True,
          unstableIsLastBlockChangeIgnored = False,
          getSelectionStart = Ref 8, getSelectionEnd = Ref 9\<rparr>,
         \<lparr>getBlocks = (\<lambda>c. 1), isLastBlockChangePersistent = True,
          unstableIsLastBlockChangeIgnored = False,
          getSelectionStart = Ref 8, getSelectionEnd = Ref 9\<rparr>]
        (fst (rerender
          \<lparr>registry = 20, onChange = 21, onInput = 22\<rparr>
          \<lparr>clientId = None, controlledBlocks = Ref 0, isDisabled = False,
           controlledSelectionStart = Undefined, controlledSelectionEnd = Undefined\<rparr>
          \<lparr>registry = 20, onChange = 21, onInput = 22\<rparr>
          \<lparr>clientId = None, controlledBlocks = Ref 0, isDisabled = True,
           controlledSelectionStart = Undefined, controlledSelectionEnd = Undefined\<rparr>
          \<lparr>getBlocks = (\<lambda>c. 5), isLastBlockChangePersistent = True,
           unstableIsLastBlockChangeIgnored = False,
           getSelectionStart = Ref 8, getSelectionEnd = Ref 9\<rparr>
          (fst (mount
            \<lparr>clientId = None, controlledBlocks = Ref 0, isDisabled = False,
             controlledSelectionStart = Undefined, controlledSelectionEnd = Undefined\<rparr>
            \<lparr>getBlocks = (\<lambda>c. 5), isLastBlockChangePersistent = True,
             unstableIsLastBlockChangeIgnored = False,
             getSelectionStart = Ref 8, getSelectionEnd = Ref 9\<rparr>)))))
     = [OnChange (Ref 1) (Ref 8) (Ref 9)]"
  by (simp add: rerender_def same_outbound_deps_def same_inbound_deps_def mount_def
      outbound_effect_def inbound_effect_def setControlledBlocks_def
      initial_pending_changes_def notify_def subscriber_def Let_def)

text \<open>
  Claim C10. Every activation of the outbound effect that subscribes starts with the
  tracked block list \<open>undefined\<close>. Hence on the first notification the block list read
  from the store is not identical to it, and, provided \<open>pendingChanges.incoming\<close> holds
  no value and the last change is not marked as ignored, the subscriber makes exactly
  one call, \<open>onChange\<close> if the last change is persistent and \<open>onInput\<close> otherwise, with
  the current block list and the store's selection bounds. This holds for every store
  state at the notification, the one of the activation included.
\<close>

theorem C10_first_notification_forwards:
  assumes "outbound_effect p st0 = Some w"
    and "\<not> truthy (incoming pc)"
    and "\<not> unstableIsLastBlockChangeIgnored st"
  shows "blocks w = Undefined
       \<and> Ref (getBlocks st (clientId p)) \<noteq> blocks w
       \<and> snd (subscriber p st (pc, w)) =
           [(if isLastBlockChangePersistent st then OnChange else OnInput)
              (Ref (getBlocks st (clientId p))) (getSelectionStart st) (getSelectionEnd st)]"
proof -
  from assms(1) have undef: "blocks w = Undefined"
    by (auto simp: outbound_effect_def split: if_splits)
  with assms(2,3) show ?thesis
    by (simp add: subscriber_def Let_def)
qed

theorem C10_witness:
  "outbound_effect
       \<lparr>clientId = None, controlledBlocks = Ref 0, isDisabled = False,
        controlledSelectionStart = Undefined, controlledSelectionEnd = Undefined\<rparr>
       \<lparr>getBlocks = (\<lambda>c. 0), isLastBlockChangePersistent = False,
        unstableIsLastBlockChangeIgnored = False,
        getSelectionStart = Ref 8, getSelectionEnd = Ref 9\<rparr>
     = Some \<lparr>blocks = Undefined, isPersistent = False, previousAreBlocksDifferent = False\<rparr>
   \<and> \<not> truthy (incoming \<lparr>incoming = Null, outgoing = []\<rparr>)
   \<and> snd (subscriber
       \<lparr>clientId = None, controlledBlocks = Ref 0, isDisabled = False,
        controlledSelectionStart = Undefined, controlledSelectionEnd = Undefined\<rparr>
       \<lparr>getBlocks = (\<lambda>c. 0), isLastBlockChangePersistent = False,
        unstableIsLastBlockChangeIgnored = False,
        getSelectionStart = Ref 8, getSelectionEnd = Ref 9\<rparr>
       (\<lparr>incoming = Null, outgoing = []\<rparr>,
        \<lparr>blocks = Undefined, isPersistent = False, previousAreBlocksDifferent = False\<rparr>))
     = [OnInput (Ref 0) (Ref 8) (Ref 9)]"
proof -
  have act: "outbound_effect
       \<lparr>clientId = None, controlledBlocks = Ref 0, isDisabled = False,
        controlledSelectionStart = Undefined, controlledSelectionEnd = Undefined\<rparr>
       \<lparr>getBlocks = (\<lambda>c. 0), isLastBlockChangePersistent = False,
        unstableIsLastBlockChangeIgnored = False,
        getSelectionStart = Ref 8, getSelectionEnd = Ref 9\<rparr>
     = Some \<lparr>blocks = Undefined, isPersistent = False, previousAreBlocksDifferent = False\<rparr>"
    by (simp add: outbound_effect_def)
  show ?thesis
    using act C10_first_notification_forwards
      [OF act, of "\<lparr>incoming = Null, outgoing = []\<rparr>"
          "\<lparr>getBlocks = (\<lambda>c. 0), isLastBlockChangePersistent = False,
            unstableIsLastBlockChangeIgnored = False,
            getSelectionStart = Ref 8, getSelectionEnd = Ref 9\<rparr>"]
    by simp
qed

end
